theory Spec2Isabelle
  imports Main "HOL-Library.Char_ord" "HOL-Library.List_Lexorder" "HOL-Library.Product_Lexorder"
    "HOL-Library.Sublist" "HOL-Library.Multiset"
begin

section \<open>Strings, digits and the regular expression of the time rule\<close>

text \<open>
  Request values are text. A JavaScript string is modelled as a \<^typ>\<open>string\<close>, a value that
  may be absent (\<^verbatim>\<open>undefined\<close>) as a \<^typ>\<open>string option\<close>. Characters are compared by
  their code, as JavaScript and SQLite's binary collation do.
\<close>

definition isdigit :: "char \<Rightarrow> bool" where
  "isdigit c = (CHR ''0'' \<le> c \<and> c \<le> CHR ''9'')"

definition digit_val :: "char \<Rightarrow> nat" where
  "digit_val c = of_char c - 48"

definition digit_char :: "nat \<Rightarrow> char" where
  "digit_char n = ''0123456789'' ! n"

definition nat_of_digits :: "string \<Rightarrow> nat" where
  "nat_of_digits ds = foldl (\<lambda>acc c. 10 * acc + digit_val c) 0 ds"

definition two_digits :: "nat \<Rightarrow> string" where
  "two_digits n = [digit_char (n div 10), digit_char (n mod 10)]"

definition four_digits :: "nat \<Rightarrow> string" where
  "four_digits n = two_digits (n div 100) @ two_digits (n mod 100)"

text \<open>
  The regular expressions of the source use literals, character ranges, sequence, alternation
  and the optional quantifier. \<open>residuals r s\<close> lists what is left of \<open>s\<close> after each way of
  matching \<open>r\<close> at its start, in the order a backtracking matcher tries them. JavaScript's
  \<^verbatim>\<open>regex.test\<close> on a pattern anchored with \<^verbatim>\<open>^\<close> and \<^verbatim>\<open>$\<close> (no flags) holds when one way leaves
  nothing.
\<close>

datatype regex = Lit char | Range char char | Seq regex regex | Alt regex regex | Opt regex

fun residuals :: "regex \<Rightarrow> string \<Rightarrow> string list" where
  "residuals (Lit c) s = (case s of [] \<Rightarrow> [] | x # xs \<Rightarrow> if x = c then [xs] else [])"
| "residuals (Range lo hi) s =
     (case s of [] \<Rightarrow> [] | x # xs \<Rightarrow> if lo \<le> x \<and> x \<le> hi then [xs] else [])"
| "residuals (Seq r1 r2) s = concat (map (residuals r2) (residuals r1 s))"
| "residuals (Alt r1 r2) s = residuals r1 s @ residuals r2 s"
| "residuals (Opt r) s = residuals r s @ [s]"

definition test :: "regex \<Rightarrow> string \<Rightarrow> bool" where
  "test r s = ([] \<in> set (residuals r s))"

text \<open>The pattern of the time rule: \<^verbatim>\<open>/^([0-1]?[0-9]|2[0-3]):[0-5][0-9]$/\<close>.\<close>

definition time_re :: regex where
  "time_re =
     Seq (Alt (Seq (Opt (Range CHR ''0'' CHR ''1'')) (Range CHR ''0'' CHR ''9''))
              (Seq (Lit CHR ''2'') (Range CHR ''0'' CHR ''3'')))
         (Seq (Lit CHR '':'') (Seq (Range CHR ''0'' CHR ''5'') (Range CHR ''0'' CHR ''9'')))"

section \<open>The validators of the create route\<close>

text \<open>
  The validation library turns the value of a field into a string before it runs a validator
  or a sanitizer on it; an absent field becomes the empty string.
\<close>

definition toString :: "string option \<Rightarrow> string" where
  "toString v = (case v of None \<Rightarrow> [] | Some s \<Rightarrow> s)"

definition matches :: "regex \<Rightarrow> string option \<Rightarrow> bool" where
  "matches r v = test r (toString v)"

text \<open>The integer a text stands for: an optional sign, then one or more decimal digits.\<close>

definition all_digits :: "string \<Rightarrow> bool" where
  "all_digits ds = (ds \<noteq> [] \<and> list_all isdigit ds)"

definition parse_int :: "string \<Rightarrow> int option" where
  "parse_int s =
     (case s of
        [] \<Rightarrow> None
      | c # ds \<Rightarrow>
          if c = CHR ''-'' then (if all_digits ds then Some (- int (nat_of_digits ds)) else None)
          else if c = CHR ''+'' then (if all_digits ds then Some (int (nat_of_digits ds)) else None)
          else if all_digits s then Some (int (nat_of_digits s)) else None)"

text \<open>
  Modelled from the spec: the validator \<^verbatim>\<open>isInt({ min: 1 })\<close> of the validation library the
  route imports; the code of the library is not among the sources. The spec asks that the
  value parses as an integer that is at least the minimum.
\<close>

definition isInt :: "int \<Rightarrow> string option \<Rightarrow> bool" where
  "isInt lo v = (case parse_int (toString v) of None \<Rightarrow> False | Some n \<Rightarrow> lo \<le> n)"

text \<open>The days of the Gregorian calendar.\<close>

definition leap_year :: "nat \<Rightarrow> bool" where
  "leap_year y = (y mod 4 = 0 \<and> (y mod 100 \<noteq> 0 \<or> y mod 400 = 0))"

definition days_in_month :: "nat \<Rightarrow> nat \<Rightarrow> nat" where
  "days_in_month y m =
     (if m = 2 then (if leap_year y then 29 else 28)
      else if m = 4 \<or> m = 6 \<or> m = 9 \<or> m = 11 then 30 else 31)"

definition valid_date :: "nat \<Rightarrow> nat \<Rightarrow> nat \<Rightarrow> bool" where
  "valid_date y m d = (1 \<le> m \<and> m \<le> 12 \<and> 1 \<le> d \<and> d \<le> days_in_month y m)"

text \<open>
  Modelled from the spec: the validator \<^verbatim>\<open>isDate()\<close> of the validation library, whose code is
  not among the sources. The spec asks for a valid calendar date in \<^verbatim>\<open>YYYY-MM-DD\<close> form: four
  digits of year, two of month, two of day, separated by hyphens.
\<close>

definition isDate :: "string option \<Rightarrow> bool" where
  "isDate v =
     (let s = toString v in
      length s = 10 \<and> s ! 4 = CHR ''-'' \<and> s ! 7 = CHR ''-'' \<and>
      list_all isdigit (take 4 s) \<and> list_all isdigit (take 2 (drop 5 s)) \<and>
      list_all isdigit (drop 8 s) \<and>
      valid_date (nat_of_digits (take 4 s)) (nat_of_digits (take 2 (drop 5 s)))
        (nat_of_digits (drop 8 s)))"

text \<open>
  Modelled from the spec: the sanitizer \<^verbatim>\<open>trim()\<close> of the validation library, whose code is
  not among the sources. The spec says it trims surrounding whitespace; whitespace is taken
  to be the space and the control characters from tab to carriage return.
\<close>

definition isspace :: "char \<Rightarrow> bool" where
  "isspace c = (c \<in> set [CHR '' '', CHR 0x09, CHR 0x0A, CHR 0x0B, CHR 0x0C, CHR 0x0D])"

definition trim :: "string option \<Rightarrow> string" where
  "trim v = rev (dropWhile isspace (rev (dropWhile isspace (toString v))))"

text \<open>
  Modelled from the spec: the validator \<^verbatim>\<open>isLength({ min: 1, max: 500 })\<close> of the validation
  library, whose code is not among the sources. The spec asks that the length lies between
  the two bounds, both included.
\<close>

definition isLength :: "nat \<Rightarrow> nat \<Rightarrow> string option \<Rightarrow> bool" where
  "isLength lo hi v = (lo \<le> length (toString v) \<and> length (toString v) \<le> hi)"

text \<open>
  The reading of the time format \<^verbatim>\<open>HH:MM\<close>: two digits of hour from 00 to 23, a colon, two
  digits of minute from 00 to 59. \<open>is_H_MM\<close> is the same with a single digit of hour.
\<close>

definition is_HH_MM :: "string \<Rightarrow> bool" where
  "is_HH_MM s =
     (length s = 5 \<and> s ! 2 = CHR '':'' \<and> list_all isdigit (take 2 s) \<and>
      list_all isdigit (drop 3 s) \<and> nat_of_digits (take 2 s) \<le> 23 \<and>
      nat_of_digits (drop 3 s) \<le> 59)"

definition is_H_MM :: "string \<Rightarrow> bool" where
  "is_H_MM s =
     (length s = 4 \<and> s ! 1 = CHR '':'' \<and> isdigit (s ! 0) \<and>
      list_all isdigit (drop 2 s) \<and> nat_of_digits (drop 2 s) \<le> 59)"

text \<open>The text of a calendar date in \<^verbatim>\<open>YYYY-MM-DD\<close> form.\<close>

definition YYYY_MM_DD :: "nat \<Rightarrow> nat \<Rightarrow> nat \<Rightarrow> string" where
  "YYYY_MM_DD y m d = four_digits y @ ''-'' @ two_digits m @ ''-'' @ two_digits d"

section \<open>The request body and its validation chain\<close>

text \<open>
  The body of a create request has four fields. Each holds the text of the JSON value sent
  (the number \<^verbatim>\<open>1\<close> is the text \<^verbatim>\<open>1\<close>), or nothing when the field is missing.
\<close>

record body =
  PatientId :: "string option"
  AppointmentDate :: "string option"
  AppointmentTime :: "string option"
  Reason :: "string option"

text \<open>An entry of \<^verbatim>\<open>errors.array()\<close>: the message of the rule and the field it concerns.\<close>

record validation_error =
  msg :: string
  path :: string

text \<open>
  The four chains of the route, run in the order they are listed. Each has one validator, so
  each contributes at most one entry; a chain never stops the ones after it. The chain of
  \<^verbatim>\<open>Reason\<close> trims the value before it checks the length.
\<close>

definition check :: "bool \<Rightarrow> string \<Rightarrow> string \<Rightarrow> validation_error list" where
  "check ok field message = (if ok then [] else [\<lparr>msg = message, path = field\<rparr>])"

definition validationResult :: "body \<Rightarrow> validation_error list" where
  "validationResult b =
     check (isInt 1 (PatientId b)) ''PatientId'' ''PatientId must be a positive integer'' @
     check (isDate (AppointmentDate b)) ''AppointmentDate''
       ''AppointmentDate must be a valid date (YYYY-MM-DD)'' @
     check (matches time_re (AppointmentTime b)) ''AppointmentTime''
       ''AppointmentTime must be in HH:MM format'' @
     check (isLength 1 500 (Some (trim (Reason b)))) ''Reason''
       ''Reason must be between 1 and 500 characters''"

text \<open>The body the handler reads: the sanitizer has replaced \<^verbatim>\<open>Reason\<close> by its trimmed text.\<close>

definition sanitized :: "body \<Rightarrow> body" where
  "sanitized b = b\<lparr>Reason := Some (trim (Reason b))\<rparr>"

section \<open>The store\<close>

text \<open>
  The two tables of the schema, rows in insertion order. The \<^verbatim>\<open>created_at\<close> columns hold the
  clock of the storage engine and are left out. A table that has not been created yet is
  marked as such; the sequence fields are the \<^verbatim>\<open>AUTOINCREMENT\<close> counters.
\<close>

record patient =
  p_id :: int
  p_name :: string
  p_email :: "string option"
  p_phone :: "string option"

record appointment =
  a_id :: int
  a_patient_id :: int
  a_appointment_date :: string
  a_appointment_time :: string
  a_reason :: string
  a_status :: string

record store =
  patients_created :: bool
  patients :: "patient list"
  patients_seq :: int
  appointments_created :: bool
  appointments :: "appointment list"
  appointments_seq :: int

text \<open>The database file before the first initialization.\<close>

definition empty_store :: store where
  "empty_store =
     \<lparr>patients_created = False, patients = [], patients_seq = 0,
      appointments_created = False, appointments = [], appointments_seq = 0\<rparr>"

text \<open>
  The statements the program sends to the storage engine. A parameter is the text bound to a
  \<^verbatim>\<open>?\<close>, or nothing (\<^verbatim>\<open>NULL\<close>).
  \<^item> \<open>CreatePatients\<close>, \<open>CreateAppointments\<close>: the two \<^verbatim>\<open>CREATE TABLE IF NOT EXISTS\<close>.
  \<^item> \<open>CountPatients\<close>: \<^verbatim>\<open>SELECT COUNT(*) as count FROM patients\<close>.
  \<^item> \<open>InsertPatient\<close>: \<^verbatim>\<open>INSERT INTO patients (name, email, phone) VALUES (?, ?, ?)\<close>.
  \<^item> \<open>SelectPatient\<close>: \<^verbatim>\<open>SELECT id FROM patients WHERE id = ?\<close>.
  \<^item> \<open>SelectConflict\<close>: \<^verbatim>\<open>SELECT id FROM appointments WHERE patient_id = ? AND
    appointment_date = ? AND appointment_time = ?\<close>.
  \<^item> \<open>InsertAppointment\<close>: \<^verbatim>\<open>INSERT INTO appointments (patient_id, appointment_date,
    appointment_time, reason) VALUES (?, ?, ?, ?)\<close>.
  \<^item> \<open>SelectAppointments\<close>: the listing query with the conditions the handler has joined with
    \<^verbatim>\<open>AND\<close> and their parameters.
  \<^item> \<open>SelectAppointment\<close>: the lookup query \<^verbatim>\<open>... WHERE a.id = ?\<close>.
\<close>

type_synonym param = "string option"

datatype condition = Patient_id_eq | Appointment_date_eq

datatype stmt =
    CreatePatients
  | CreateAppointments
  | CountPatients
  | InsertPatient param param param
  | SelectPatient param
  | SelectConflict param param param
  | InsertAppointment param param param param
  | SelectAppointments "condition list" "param list"
  | SelectAppointment param

text \<open>
  The storage engine can fail on any statement (a full disk, a locked file); the callback then
  receives \<^verbatim>\<open>err\<close>. The environment says on which statements it does.
\<close>

type_synonym engine = "stmt \<Rightarrow> bool"

definition healthy :: engine where
  "healthy = (\<lambda>q. False)"

datatype sql_error = SQLITE_ERROR | SQLITE_CONSTRAINT | SQLITE_MISMATCH | SQLITE_IOERR

text \<open>
  Comparison of a column with a parameter. An integer column equals a text parameter when
  the text converts to that integer; a text column equals it when the texts are the same.
  Nothing equals \<^verbatim>\<open>NULL\<close>.
\<close>

definition int_eq :: "int \<Rightarrow> param \<Rightarrow> bool" where
  "int_eq n v = (case v of None \<Rightarrow> False | Some t \<Rightarrow> parse_int t = Some n)"

definition text_eq :: "string \<Rightarrow> param \<Rightarrow> bool" where
  "text_eq s v = (case v of None \<Rightarrow> False | Some t \<Rightarrow> s = t)"

text \<open>The next row identifier of an \<^verbatim>\<open>AUTOINCREMENT\<close> key: above the counter and every row.\<close>

definition next_rowid :: "int \<Rightarrow> int list \<Rightarrow> int" where
  "next_rowid seq ids = fold max ids seq + 1"

definition run :: "engine \<Rightarrow> stmt \<Rightarrow> (sql_error + 'a) \<Rightarrow> sql_error + 'a" where
  "run fails q r = (if fails q then Inl SQLITE_IOERR else r)"

definition select_patient :: "store \<Rightarrow> param \<Rightarrow> sql_error + int option" where
  "select_patient s pid =
     (if \<not> patients_created s then Inl SQLITE_ERROR
      else Inr (map_option p_id (find (\<lambda>p. int_eq (p_id p) pid) (patients s))))"

definition select_conflict :: "store \<Rightarrow> param \<Rightarrow> param \<Rightarrow> param \<Rightarrow> sql_error + int option" where
  "select_conflict s pid d t =
     (if \<not> appointments_created s then Inl SQLITE_ERROR
      else Inr (map_option a_id
        (find (\<lambda>a. int_eq (a_patient_id a) pid \<and> text_eq (a_appointment_date a) d \<and>
                    text_eq (a_appointment_time a) t) (appointments s))))"

text \<open>
  The insert fills \<^verbatim>\<open>status\<close> with its default and returns the store with the new row and the
  identifier of the row (\<^verbatim>\<open>this.lastID\<close>). The columns are \<^verbatim>\<open>NOT NULL\<close>. The column
  \<^verbatim>\<open>patient_id\<close> is kept as an integer here: text that does not convert to one is refused.
  The create route only inserts a \<^verbatim>\<open>PatientId\<close> that the patient query has matched with an
  integer key.
\<close>

definition insert_appointment ::
  "store \<Rightarrow> param \<Rightarrow> param \<Rightarrow> param \<Rightarrow> param \<Rightarrow> sql_error + store \<times> int" where
  "insert_appointment s pid d t r =
     (if \<not> appointments_created s then Inl SQLITE_ERROR
      else case (pid, d, t, r) of
        (Some pid', Some d', Some t', Some r') \<Rightarrow>
          (case parse_int pid' of
             None \<Rightarrow> Inl SQLITE_MISMATCH
           | Some n \<Rightarrow>
               let i = next_rowid (appointments_seq s) (map a_id (appointments s)) in
               Inr (s\<lparr>appointments := appointments s @
                        [\<lparr>a_id = i, a_patient_id = n, a_appointment_date = d',
                          a_appointment_time = t', a_reason = r', a_status = ''scheduled''\<rparr>],
                      appointments_seq := i\<rparr>, i))
      | _ \<Rightarrow> Inl SQLITE_CONSTRAINT)"

section \<open>Responses\<close>

text \<open>A row of the listing and a row of the lookup, with the column aliases of the queries.\<close>

datatype appointment_row =
  AppointmentRow (AppointmentId: int) (RowPatientId: int) (RowAppointmentDate: string)
    (RowAppointmentTime: string) (RowReason: string) (RowStatus: string) (PatientName: string)

datatype appointment_detail =
  AppointmentDetail appointment_row (PatientEmail: "string option") (PatientPhone: "string option")

text \<open>
  The JSON documents the routes send: the created appointment (\<^verbatim>\<open>AppointmentId\<close>,
  \<^verbatim>\<open>PatientId\<close>, \<^verbatim>\<open>AppointmentDate\<close>, \<^verbatim>\<open>AppointmentTime\<close>, \<^verbatim>\<open>Reason\<close>, \<^verbatim>\<open>Message\<close>), the
  validation failure (\<^verbatim>\<open>error\<close>, \<^verbatim>\<open>details\<close>), the other failures (\<^verbatim>\<open>error\<close>, \<^verbatim>\<open>message\<close>), the
  listing and the single appointment.
\<close>

datatype json =
    Created int param param param param string
  | Invalid string "validation_error list"
  | Failure string string
  | Listing "appointment_row list"
  | Detail appointment_detail

record response =
  status :: nat
  json :: json

text \<open>A template literal prints an absent value as \<^verbatim>\<open>undefined\<close>.\<close>

definition template :: "param \<Rightarrow> string" where
  "template v = (case v of None \<Rightarrow> ''undefined'' | Some s \<Rightarrow> s)"

section \<open>The create route\<close>

definition server_error :: "string \<Rightarrow> response" where
  "server_error m = \<lparr>status = 500, json = Failure ''Internal server error'' m\<rparr>"

text \<open>
  The handler of \<^verbatim>\<open>POST /\<close>. It returns the store it leaves, the statements it has sent to the
  storage engine, in order, and the response. A statement that fails rejects its promise, and
  the \<^verbatim>\<open>catch\<close> block answers 500.
\<close>

definition post_appointment :: "engine \<Rightarrow> store \<Rightarrow> body \<Rightarrow> store \<times> stmt list \<times> response" where
  "post_appointment fails s req =
     (let errors = validationResult req in
      if errors \<noteq> [] then
        (s, [], \<lparr>status = 400, json = Invalid ''Validation failed'' errors\<rparr>)
      else
        let b = sanitized req;
            q1 = SelectPatient (PatientId b)
        in case run fails q1 (select_patient s (PatientId b)) of
          Inl err \<Rightarrow> (s, [q1], server_error ''Failed to create appointment'')
        | Inr None \<Rightarrow>
            (s, [q1],
             \<lparr>status = 404,
              json = Failure ''Patient not found''
                (''Patient with ID '' @ template (PatientId b) @ '' does not exist'')\<rparr>)
        | Inr (Some patient) \<Rightarrow>
            let q2 = SelectConflict (PatientId b) (AppointmentDate b) (AppointmentTime b)
            in case run fails q2
                 (select_conflict s (PatientId b) (AppointmentDate b) (AppointmentTime b)) of
              Inl err \<Rightarrow> (s, [q1, q2], server_error ''Failed to create appointment'')
            | Inr (Some existingAppointment) \<Rightarrow>
                (s, [q1, q2],
                 \<lparr>status = 409,
                  json = Failure ''Appointment conflict''
                    ''Patient already has an appointment at this date and time''\<rparr>)
            | Inr None \<Rightarrow>
                let q3 = InsertAppointment (PatientId b) (AppointmentDate b)
                           (AppointmentTime b) (Reason b)
                in case run fails q3
                     (insert_appointment s (PatientId b) (AppointmentDate b)
                        (AppointmentTime b) (Reason b)) of
                  Inl err \<Rightarrow> (s, [q1, q2, q3], server_error ''Failed to create appointment'')
                | Inr (s', appointmentId) \<Rightarrow>
                    (s', [q1, q2, q3],
                     \<lparr>status = 201,
                      json = Created appointmentId (PatientId b) (AppointmentDate b)
                        (AppointmentTime b) (Reason b)
                        ''Appointment created successfully''\<rparr>))"

section \<open>The read routes\<close>

text \<open>A query parameter counts as given when it is neither absent nor the empty string.\<close>

definition truthy :: "param \<Rightarrow> bool" where
  "truthy v = (case v of None \<Rightarrow> False | Some t \<Rightarrow> t \<noteq> [])"

text \<open>The conditions and parameters the listing handler collects before it joins them.\<close>

definition build_query :: "param \<Rightarrow> param \<Rightarrow> condition list \<times> param list" where
  "build_query patientId date =
     (if truthy patientId \<or> truthy date then
        ((if truthy patientId then [Patient_id_eq] else []) @
         (if truthy date then [Appointment_date_eq] else []),
         (if truthy patientId then [patientId] else []) @
         (if truthy date then [date] else []))
      else ([], []))"

text \<open>\<^verbatim>\<open>FROM appointments a JOIN patients p ON a.patient_id = p.id\<close>.\<close>

definition joined :: "store \<Rightarrow> (appointment \<times> patient) list" where
  "joined s =
     concat (map (\<lambda>a. map (\<lambda>p. (a, p)) (filter (\<lambda>p. a_patient_id a = p_id p) (patients s)))
       (appointments s))"

fun holds :: "condition \<Rightarrow> param \<Rightarrow> appointment \<Rightarrow> bool" where
  "holds Patient_id_eq v a = int_eq (a_patient_id a) v"
| "holds Appointment_date_eq v a = text_eq (a_appointment_date a) v"

definition where_clause :: "condition list \<Rightarrow> param list \<Rightarrow> appointment \<Rightarrow> bool" where
  "where_clause conditions params a = list_all (\<lambda>(c, v). holds c v a) (zip conditions params)"

definition appointment_row_of :: "appointment \<times> patient \<Rightarrow> appointment_row" where
  "appointment_row_of ap =
     (case ap of (a, p) \<Rightarrow>
        AppointmentRow (a_id a) (a_patient_id a) (a_appointment_date a) (a_appointment_time a)
          (a_reason a) (a_status a) (p_name p))"


text \<open>
  \<^verbatim>\<open>ORDER BY a.appointment_date, a.appointment_time\<close>: both columns hold text, which the
  engine compares character by character. Rows with the same date and time keep the order
  of the join.
\<close>

definition order_key :: "appointment_row \<Rightarrow> string \<times> string" where
  "order_key r = (RowAppointmentDate r, RowAppointmentTime r)"

definition select_appointments ::
  "store \<Rightarrow> condition list \<Rightarrow> param list \<Rightarrow> sql_error + appointment_row list" where
  "select_appointments s conditions params =
     (if \<not> (patients_created s \<and> appointments_created s) then Inl SQLITE_ERROR
      else Inr (sort_key order_key
        (map appointment_row_of
           (filter (\<lambda>ap. where_clause conditions params (fst ap)) (joined s)))))"


text \<open>The handler of \<^verbatim>\<open>GET /\<close>, given the query parameters \<^verbatim>\<open>patientId\<close> and \<^verbatim>\<open>date\<close>.\<close>

definition get_appointments :: "engine \<Rightarrow> store \<Rightarrow> param \<Rightarrow> param \<Rightarrow> stmt list \<times> response" where
  "get_appointments fails s patientId date =
     (case build_query patientId date of (conditions, params) \<Rightarrow>
        let q = SelectAppointments conditions params
        in case run fails q (select_appointments s conditions params) of
          Inl err \<Rightarrow> ([q], server_error ''Failed to fetch appointments'')
        | Inr rows \<Rightarrow> ([q], \<lparr>status = 200, json = Listing rows\<rparr>))"


section \<open>Schema initialization\<close>

definition create_patients :: "store \<Rightarrow> sql_error + store" where
  "create_patients s =
     Inr (if patients_created s then s
          else s\<lparr>patients_created := True, patients := [], patients_seq := 0\<rparr>)"

definition create_appointments :: "store \<Rightarrow> sql_error + store" where
  "create_appointments s =
     Inr (if appointments_created s then s
          else s\<lparr>appointments_created := True, appointments := [], appointments_seq := 0\<rparr>)"

definition count_patients :: "store \<Rightarrow> sql_error + nat" where
  "count_patients s =
     (if \<not> patients_created s then Inl SQLITE_ERROR else Inr (length (patients s)))"

text \<open>The column \<^verbatim>\<open>name\<close> is \<^verbatim>\<open>NOT NULL\<close> and \<^verbatim>\<open>email\<close> is \<^verbatim>\<open>UNIQUE\<close> among the emails that are set.\<close>

definition insert_patient :: "store \<Rightarrow> param \<Rightarrow> param \<Rightarrow> param \<Rightarrow> sql_error + store" where
  "insert_patient s n e ph =
     (if \<not> patients_created s then Inl SQLITE_ERROR
      else case n of
        None \<Rightarrow> Inl SQLITE_CONSTRAINT
      | Some n' \<Rightarrow>
          if e \<noteq> None \<and> e \<in> set (map p_email (patients s)) then Inl SQLITE_CONSTRAINT
          else
            let i = next_rowid (patients_seq s) (map p_id (patients s)) in
            Inr (s\<lparr>patients := patients s @
                     [\<lparr>p_id = i, p_name = n', p_email = e, p_phone = ph\<rparr>],
                   patients_seq := i\<rparr>))"

definition samplePatients :: "(string \<times> string \<times> string) list" where
  "samplePatients =
     [(''John Doe'', ''john@example.com'', ''555-0101''),
      (''Jane Smith'', ''jane@example.com'', ''555-0102''),
      (''Bob Johnson'', ''bob@example.com'', ''555-0103'')]"

datatype settled = Resolved | Rejected

text \<open>
  A statement sent without looking at its outcome: the store changes when it succeeds and
  stays as it is when it fails.
\<close>

definition attempt :: "engine \<Rightarrow> stmt \<Rightarrow> (sql_error + store) \<Rightarrow> store \<Rightarrow> store" where
  "attempt fails q r s = (case run fails q r of Inl err \<Rightarrow> s | Inr s' \<Rightarrow> s')"

definition seed :: "engine \<Rightarrow> store \<times> stmt list \<Rightarrow> string \<times> string \<times> string \<Rightarrow> store \<times> stmt list" where
  "seed fails acc sample =
     (case (acc, sample) of ((s, trace), (n, e, ph)) \<Rightarrow>
        let q = InsertPatient (Some n) (Some e) (Some ph)
        in (attempt fails q (insert_patient s (Some n) (Some e) (Some ph)) s, trace @ [q]))"

text \<open>
  \<^verbatim>\<open>initializeDatabase\<close>. The statements run one after the other (\<^verbatim>\<open>db.serialize\<close>). The promise
  is rejected when one of the two \<^verbatim>\<open>CREATE TABLE\<close> statements fails and resolved otherwise;
  the sample patients are inserted when the count query succeeds and counts no row.
\<close>

definition initializeDatabase :: "engine \<Rightarrow> store \<Rightarrow> store \<times> stmt list \<times> settled" where
  "initializeDatabase fails s =
     (let r1 = run fails CreatePatients (create_patients s);
          s1 = attempt fails CreatePatients (create_patients s) s;
          r2 = run fails CreateAppointments (create_appointments s1);
          s2 = attempt fails CreateAppointments (create_appointments s1) s1;
          outcome = (if isl r1 \<or> isl r2 then Rejected else Resolved);
          trace = [CreatePatients, CreateAppointments, CountPatients]
      in case run fails CountPatients (count_patients s2) of
           Inl err \<Rightarrow> (s2, trace, outcome)
         | Inr row_count \<Rightarrow>
             if row_count = 0 then
               (case foldl (seed fails) (s2, trace) samplePatients of
                  (s3, trace') \<Rightarrow> (s3, trace', outcome))
             else (s2, trace, outcome))"

section \<open>The steps and answers of the create route\<close>

text \<open>
  Names for the three statements the handler of the create route sends for a request, for
  what the storage engine returns for each, and for the four answers other than 500.
\<close>

definition patient_query :: "body \<Rightarrow> stmt" where
  "patient_query req = SelectPatient (PatientId req)"

definition conflict_query :: "body \<Rightarrow> stmt" where
  "conflict_query req =
     SelectConflict (PatientId req) (AppointmentDate req) (AppointmentTime req)"

definition insert_statement :: "body \<Rightarrow> stmt" where
  "insert_statement req =
     InsertAppointment (PatientId req) (AppointmentDate req) (AppointmentTime req)
       (Some (trim (Reason req)))"

definition patient_row :: "engine \<Rightarrow> store \<Rightarrow> body \<Rightarrow> sql_error + int option" where
  "patient_row fails s req = run fails (patient_query req) (select_patient s (PatientId req))"

definition conflict_row :: "engine \<Rightarrow> store \<Rightarrow> body \<Rightarrow> sql_error + int option" where
  "conflict_row fails s req =
     run fails (conflict_query req)
       (select_conflict s (PatientId req) (AppointmentDate req) (AppointmentTime req))"

definition inserted :: "engine \<Rightarrow> store \<Rightarrow> body \<Rightarrow> sql_error + store \<times> int" where
  "inserted fails s req =
     run fails (insert_statement req)
       (insert_appointment s (PatientId req) (AppointmentDate req) (AppointmentTime req)
          (Some (trim (Reason req))))"

definition created_response :: "int \<Rightarrow> body \<Rightarrow> response" where
  "created_response i req =
     \<lparr>status = 201,
      json = Created i (PatientId req) (AppointmentDate req) (AppointmentTime req)
        (Some (trim (Reason req))) ''Appointment created successfully''\<rparr>"

definition patient_not_found :: "body \<Rightarrow> response" where
  "patient_not_found req =
     \<lparr>status = 404,
      json = Failure ''Patient not found''
        (''Patient with ID '' @ template (PatientId req) @ '' does not exist'')\<rparr>"

definition scheduling_conflict :: response where
  "scheduling_conflict =
     \<lparr>status = 409,
      json = Failure ''Appointment conflict''
        ''Patient already has an appointment at this date and time''\<rparr>"

definition validation_failed :: "body \<Rightarrow> response" where
  "validation_failed req =
     \<lparr>status = 400, json = Invalid ''Validation failed'' (validationResult req)\<rparr>"

section \<open>Properties of the store\<close>



text \<open>
  What the schema and the create route maintain: both tables exist, the keys are unique, and
  every appointment refers to a patient of the table.
\<close>

definition integrity :: "store \<Rightarrow> bool" where
  "integrity s =
     (patients_created s \<and> appointments_created s \<and>
      distinct (map p_id (patients s)) \<and> distinct (map a_id (appointments s)) \<and>
      list_all (\<lambda>a. a_patient_id a \<in> set (map p_id (patients s))) (appointments s))"




section \<open>Example requests and stores\<close>

definition seeded_store :: store where
  "seeded_store = fst (initializeDatabase healthy empty_store)"

definition checkup :: body where
  "checkup =
     \<lparr>PatientId = Some ''1'', AppointmentDate = Some ''2024-12-25'',
      AppointmentTime = Some ''10:30'', Reason = Some ''Regular checkup''\<rparr>"

definition early_visit :: body where
  "early_visit =
     \<lparr>PatientId = Some ''1'', AppointmentDate = Some ''2024-12-25'',
      AppointmentTime = Some ''9:30'', Reason = Some '' Blood test ''\<rparr>"

definition malformed :: body where
  "malformed =
     \<lparr>PatientId = Some ''0'', AppointmentDate = Some ''2024-02-30'',
      AppointmentTime = None, Reason = Some ''   ''\<rparr>"

definition booked_store :: store where
  "booked_store =
     fst (post_appointment healthy (fst (post_appointment healthy seeded_store early_visit))
       checkup)"

section \<open>Digits and characters\<close>

lemma char_between:
  assumes "lo \<le> c" "c \<le> hi"
  shows "c \<in> set (map char_of [of_char lo ..< Suc (of_char hi) :: nat])"
proof -
  have "(of_char c :: nat) \<in> set [of_char lo ..< Suc (of_char hi)]"
    using assms unfolding less_eq_char_def set_upt atLeastLessThan_iff by linarith
  then have "char_of (of_char c :: nat) \<in> char_of ` set [of_char lo ..< Suc (of_char hi) :: nat]"
    by (rule imageI)
  then show ?thesis by (simp only: char_of_char set_map)
qed

lemma isdigit_set: "isdigit c \<longleftrightarrow> c \<in> set ''0123456789''"
proof
  assume "isdigit c"
  then have "c \<in> set (map char_of [of_char CHR ''0'' ..< Suc (of_char CHR ''9'') :: nat])"
    unfolding isdigit_def by (intro char_between) simp_all
  also have "map char_of [of_char CHR ''0'' ..< Suc (of_char CHR ''9'') :: nat] = ''0123456789''"
    by code_simp
  finally show "c \<in> set ''0123456789''" .
next
  assume "c \<in> set ''0123456789''"
  then show "isdigit c" by (auto simp: isdigit_def)
qed

lemma digit_char_val: "isdigit c \<Longrightarrow> digit_char (digit_val c) = c \<and> digit_val c < 10"
  unfolding isdigit_set by (auto simp: digit_char_def digit_val_def)

lemma digit_val_char: "n < 10 \<Longrightarrow> digit_val (digit_char n) = n \<and> isdigit (digit_char n)"
proof -
  assume "n < 10"
  then have "n \<in> {0, 1, 2, 3, 4, 5, 6, 7, 8, 9}" by simp arith
  then show ?thesis
    by (auto simp: digit_char_def digit_val_def isdigit_def)
qed

lemma char_eq_code: "c = d \<longleftrightarrow> (of_char c :: nat) = of_char d"
  by simp

lemma nat_of_two: "nat_of_digits [a, b] = 10 * digit_val a + digit_val b"
  by (simp add: nat_of_digits_def)

lemma nat_of_four:
  "nat_of_digits [a, b, c, d] = 100 * nat_of_digits [a, b] + nat_of_digits [c, d]"
  by (simp add: nat_of_digits_def)

lemma two_digits_nat:
  assumes "isdigit a" "isdigit b"
  shows "two_digits (nat_of_digits [a, b]) = [a, b]" and "nat_of_digits [a, b] < 100"
  using digit_char_val [OF assms(1)] digit_char_val [OF assms(2)]
  by (simp_all add: two_digits_def nat_of_two)

lemma four_digits_nat:
  assumes "isdigit a" "isdigit b" "isdigit c" "isdigit d"
  shows "four_digits (nat_of_digits [a, b, c, d]) = [a, b, c, d]"
    and "nat_of_digits [a, b, c, d] \<le> 9999"
  using two_digits_nat [OF assms(1,2)] two_digits_nat [OF assms(3,4)]
  by (simp_all add: four_digits_def nat_of_four)

lemma nat_two_digits:
  assumes "n < 100"
  shows "nat_of_digits (two_digits n) = n" and "list_all isdigit (two_digits n)"
proof -
  have "n div 10 < 10" "n mod 10 < 10" using assms by simp_all
  then show "nat_of_digits (two_digits n) = n" and "list_all isdigit (two_digits n)"
    using digit_val_char [of "n div 10"] digit_val_char [of "n mod 10"]
    by (simp_all add: two_digits_def nat_of_two)
qed

lemma nat_four_digits:
  assumes "n \<le> 9999"
  shows "nat_of_digits (four_digits n) = n" and "list_all isdigit (four_digits n)"
proof -
  have "n div 100 < 100" "n mod 100 < 100" using assms by simp_all
  then show "nat_of_digits (four_digits n) = n" and "list_all isdigit (four_digits n)"
    using nat_two_digits [of "n div 100"] nat_two_digits [of "n mod 100"]
    by (simp_all add: four_digits_def two_digits_def nat_of_four)
qed

lemma length_4_iff: "length s = 4 \<longleftrightarrow> (\<exists>a b c d. s = [a, b, c, d])"
  by (auto simp: length_Suc_conv eval_nat_numeral)

lemma length_5_iff: "length s = 5 \<longleftrightarrow> (\<exists>a b c d e. s = [a, b, c, d, e])"
  by (auto simp: length_Suc_conv eval_nat_numeral)

lemma length_10_iff:
  "length s = 10 \<longleftrightarrow> (\<exists>a b c d e f g h i j. s = [a, b, c, d, e, f, g, h, i, j])"
  by (auto simp: length_Suc_conv eval_nat_numeral)

section \<open>The time rule\<close>

lemma residuals_Lit_iff: "u \<in> set (residuals (Lit c) s) \<longleftrightarrow> s = c # u"
  by (auto split: list.splits)

lemma residuals_Range_iff:
  "u \<in> set (residuals (Range lo hi) s) \<longleftrightarrow> (\<exists>x. s = x # u \<and> lo \<le> x \<and> x \<le> hi)"
  by (auto split: list.splits)

lemma residuals_Seq_iff:
  "u \<in> set (residuals (Seq r1 r2) s) \<longleftrightarrow>
     (\<exists>v \<in> set (residuals r1 s). u \<in> set (residuals r2 v))"
  by auto

lemma residuals_Alt_iff:
  "u \<in> set (residuals (Alt r1 r2) s) \<longleftrightarrow>
     u \<in> set (residuals r1 s) \<or> u \<in> set (residuals r2 s)"
  by auto

lemma residuals_Opt_iff:
  "u \<in> set (residuals (Opt r) s) \<longleftrightarrow> u \<in> set (residuals r s) \<or> u = s"
  by auto

lemmas residuals_iff =
  residuals_Lit_iff residuals_Range_iff residuals_Seq_iff residuals_Alt_iff residuals_Opt_iff

lemma test_time_re_iff:
  "test time_re s \<longleftrightarrow>
     ((\<exists>h m1 m2. s = [h, CHR '':'', m1, m2] \<and> isdigit h \<and>
         CHR ''0'' \<le> m1 \<and> m1 \<le> CHR ''5'' \<and> isdigit m2) \<or>
      (\<exists>h1 h2 m1 m2. s = [h1, h2, CHR '':'', m1, m2] \<and>
         (CHR ''0'' \<le> h1 \<and> h1 \<le> CHR ''1'' \<and> isdigit h2 \<or>
          h1 = CHR ''2'' \<and> CHR ''0'' \<le> h2 \<and> h2 \<le> CHR ''3'') \<and>
         CHR ''0'' \<le> m1 \<and> m1 \<le> CHR ''5'' \<and> isdigit m2))"
  (is "_ \<longleftrightarrow> ?rhs")
proof
  assume "test time_re s"
  then show ?rhs
    unfolding test_def time_re_def isdigit_def
    apply (simp only: residuals_iff Bex_def)
    apply (elim exE conjE disjE; simp)
    done
next
  assume ?rhs
  then show "test time_re s"
    unfolding test_def time_re_def isdigit_def
    by (elim disjE exE conjE) simp_all
qed

lemma hour_two_digits:
  "isdigit a \<and> isdigit b \<and> nat_of_digits [a, b] \<le> 23 \<longleftrightarrow>
     (CHR ''0'' \<le> a \<and> a \<le> CHR ''1'' \<and> isdigit b \<or>
      a = CHR ''2'' \<and> CHR ''0'' \<le> b \<and> b \<le> CHR ''3'')"
  unfolding nat_of_two isdigit_def digit_val_def less_eq_char_def char_eq_code [of a]
  by simp linarith

lemma minute_two_digits:
  "isdigit a \<and> isdigit b \<and> nat_of_digits [a, b] \<le> 59 \<longleftrightarrow>
     (CHR ''0'' \<le> a \<and> a \<le> CHR ''5'' \<and> isdigit b)"
  unfolding nat_of_two isdigit_def digit_val_def less_eq_char_def
  by simp linarith

lemma is_HH_MM_iff:
  "is_HH_MM s \<longleftrightarrow>
     (\<exists>h1 h2 m1 m2. s = [h1, h2, CHR '':'', m1, m2] \<and>
         (isdigit h1 \<and> isdigit h2 \<and> nat_of_digits [h1, h2] \<le> 23) \<and>
         (isdigit m1 \<and> isdigit m2 \<and> nat_of_digits [m1, m2] \<le> 59))"
  unfolding is_HH_MM_def length_5_iff by auto

lemma is_H_MM_iff:
  "is_H_MM s \<longleftrightarrow>
     (\<exists>h m1 m2. s = [h, CHR '':'', m1, m2] \<and> isdigit h \<and>
         (isdigit m1 \<and> isdigit m2 \<and> nat_of_digits [m1, m2] \<le> 59))"
  unfolding is_H_MM_def length_4_iff by auto

text \<open>
  C5, as the code has it: the time of a create request passes the rule exactly when it is
  present and reads \<^verbatim>\<open>HH:MM\<close> with the hour from 00 to 23, or \<^verbatim>\<open>H:MM\<close> with a single digit of
  hour, the minute from 00 to 59 in both.
\<close>

theorem time_rule_accepts:
  "matches time_re v \<longleftrightarrow> (\<exists>s. v = Some s \<and> (is_HH_MM s \<or> is_H_MM s))"
proof (cases v)
  case None
  then show ?thesis by (simp add: matches_def toString_def test_time_re_iff)
next
  case (Some s)
  have "test time_re s \<longleftrightarrow> is_HH_MM s \<or> is_H_MM s"
    unfolding test_time_re_iff is_HH_MM_iff is_H_MM_iff hour_two_digits minute_two_digits
    by blast
  with Some show ?thesis by (simp add: matches_def toString_def)
qed

theorem time_rule_accepts_witness:
  "matches time_re (Some ''23:59'') \<and> is_HH_MM ''23:59'' \<and>
   \<not> matches time_re (Some ''24:00'') \<and> \<not> matches time_re None"
proof -
  have "is_HH_MM ''23:59''"
    by (simp add: is_HH_MM_def nat_of_digits_def digit_val_def isdigit_def)
  moreover have "\<not> is_HH_MM ''24:00''" "\<not> is_H_MM ''24:00''"
    by (simp_all add: is_HH_MM_def is_H_MM_def nat_of_digits_def digit_val_def isdigit_def)
  ultimately show ?thesis
    using time_rule_accepts [of "Some ''23:59''"] time_rule_accepts [of "Some ''24:00''"]
      time_rule_accepts [of None]
    by simp
qed

text \<open>
  C5, as the claim states it, fails: the time \<^verbatim>\<open>9:30\<close> passes the rule and is not of the form
  \<^verbatim>\<open>HH:MM\<close>.
\<close>

theorem time_rule_single_digit_hour:
  "matches time_re (Some ''9:30'') \<and> \<not> is_HH_MM ''9:30''"
  by (simp add: matches_def toString_def test_def time_re_def is_HH_MM_def)

section \<open>The date rule\<close>

lemma valid_date_bounds: "valid_date y m d \<Longrightarrow> m < 100 \<and> d < 100"
  by (auto simp: valid_date_def days_in_month_def split: if_splits)

text \<open>
  C6: the date of a create request passes the rule exactly when it is present and is the
  text, in \<^verbatim>\<open>YYYY-MM-DD\<close> form, of a valid calendar date.
\<close>

theorem date_rule_accepts:
  "isDate v \<longleftrightarrow> (\<exists>y m d. y \<le> 9999 \<and> valid_date y m d \<and> v = Some (YYYY_MM_DD y m d))"
proof
  assume "isDate v"
  then have len: "length (toString v) = 10" by (simp add: isDate_def Let_def)
  then obtain s where v: "v = Some s" by (cases v) (simp_all add: toString_def)
  from len v obtain a b c d e f g h i j where s: "s = [a, b, c, d, e, f, g, h, i, j]"
    by (auto simp: length_10_iff toString_def)
  from \<open>isDate v\<close> have dig: "isdigit a" "isdigit b" "isdigit c" "isdigit d"
      "isdigit f" "isdigit g" "isdigit i" "isdigit j"
    and sep: "e = CHR ''-''" "h = CHR ''-''"
    and val: "valid_date (nat_of_digits [a, b, c, d]) (nat_of_digits [f, g]) (nat_of_digits [i, j])"
    by (simp_all add: isDate_def v s toString_def)
  have "s = YYYY_MM_DD (nat_of_digits [a, b, c, d]) (nat_of_digits [f, g]) (nat_of_digits [i, j])"
    using four_digits_nat(1) [OF dig(1-4)] two_digits_nat(1) [OF dig(5,6)]
      two_digits_nat(1) [OF dig(7,8)] sep
    by (simp add: YYYY_MM_DD_def s)
  with four_digits_nat(2) [OF dig(1-4)] val v
  show "\<exists>y m d. y \<le> 9999 \<and> valid_date y m d \<and> v = Some (YYYY_MM_DD y m d)" by blast
next
  assume "\<exists>y m d. y \<le> 9999 \<and> valid_date y m d \<and> v = Some (YYYY_MM_DD y m d)"
  then obtain y m d where y: "y \<le> 9999" and val: "valid_date y m d"
    and v: "v = Some (YYYY_MM_DD y m d)" by blast
  from valid_date_bounds [OF val] have m: "m < 100" and d: "d < 100" by simp_all
  obtain a b c e where fy: "four_digits y = [a, b, c, e]"
    by (simp add: four_digits_def two_digits_def)
  obtain f g where fm: "two_digits m = [f, g]" by (simp add: two_digits_def)
  obtain i j where fd: "two_digits d = [i, j]" by (simp add: two_digits_def)
  show "isDate v"
    using nat_four_digits [OF y] nat_two_digits [OF m] nat_two_digits [OF d] val
    by (simp add: isDate_def v YYYY_MM_DD_def toString_def fy fm fd)
qed

theorem date_rule_accepts_witness:
  "isDate (Some ''2024-02-29'') \<and> valid_date 2024 2 29 \<and> \<not> isDate (Some ''2023-02-29'') \<and>
   \<not> isDate (Some ''25-12-2024'') \<and> \<not> isDate None"
proof -
  have leap: "valid_date 2024 2 29"
    by (simp add: valid_date_def days_in_month_def leap_year_def)
  moreover have "''2024-02-29'' = YYYY_MM_DD 2024 2 29"
    by (simp add: YYYY_MM_DD_def four_digits_def two_digits_def digit_char_def)
  ultimately have "\<exists>y m d. y \<le> 9999 \<and> valid_date y m d \<and>
      Some ''2024-02-29'' = Some (YYYY_MM_DD y m d)"
    by (intro exI [of _ 2024] exI [of _ 2] exI [of _ 29]) simp
  then have "isDate (Some ''2024-02-29'')"
    by (rule date_rule_accepts [THEN iffD2])
  moreover have "\<not> isDate (Some ''2023-02-29'')"
    by (simp add: isDate_def toString_def isdigit_def nat_of_digits_def digit_val_def
        valid_date_def days_in_month_def leap_year_def)
  moreover have "\<not> isDate (Some ''25-12-2024'')" "\<not> isDate None"
    by (simp_all add: isDate_def toString_def isdigit_def)
  ultimately show ?thesis using leap by simp
qed

section \<open>The validation gate\<close>

lemma validationResult_empty_iff:
  "validationResult b = [] \<longleftrightarrow>
     isInt 1 (PatientId b) \<and> isDate (AppointmentDate b) \<and>
     matches time_re (AppointmentTime b) \<and> isLength 1 500 (Some (trim (Reason b)))"
  by (simp add: validationResult_def check_def)

text \<open>
  C2: when a create request breaks one or more of the four rules, the handler answers 400
  with details that hold the entry (message and field) of every rule broken and of no other,
  one entry for a field, and it sends no statement to the storage engine and leaves the
  store as it was.
\<close>

theorem validation_failure_lists_every_rule:
  assumes "\<not> isInt 1 (PatientId req) \<or> \<not> isDate (AppointmentDate req) \<or>
           \<not> matches time_re (AppointmentTime req) \<or>
           \<not> isLength 1 500 (Some (trim (Reason req)))"
  shows "\<exists>details.
     post_appointment fails s req =
       (s, [], \<lparr>status = 400, json = Invalid ''Validation failed'' details\<rparr>) \<and>
     ((\<lparr>msg = ''PatientId must be a positive integer'', path = ''PatientId''\<rparr> \<in> set details)
        = (\<not> isInt 1 (PatientId req))) \<and>
     ((\<lparr>msg = ''AppointmentDate must be a valid date (YYYY-MM-DD)'',
         path = ''AppointmentDate''\<rparr> \<in> set details)
        = (\<not> isDate (AppointmentDate req))) \<and>
     ((\<lparr>msg = ''AppointmentTime must be in HH:MM format'', path = ''AppointmentTime''\<rparr>
         \<in> set details)
        = (\<not> matches time_re (AppointmentTime req))) \<and>
     ((\<lparr>msg = ''Reason must be between 1 and 500 characters'', path = ''Reason''\<rparr>
         \<in> set details)
        = (\<not> isLength 1 500 (Some (trim (Reason req))))) \<and>
     set details \<subseteq>
       {\<lparr>msg = ''PatientId must be a positive integer'', path = ''PatientId''\<rparr>,
        \<lparr>msg = ''AppointmentDate must be a valid date (YYYY-MM-DD)'',
          path = ''AppointmentDate''\<rparr>,
        \<lparr>msg = ''AppointmentTime must be in HH:MM format'', path = ''AppointmentTime''\<rparr>,
        \<lparr>msg = ''Reason must be between 1 and 500 characters'', path = ''Reason''\<rparr>} \<and>
     distinct (map path details)"
proof -
  from assms have "validationResult req \<noteq> []"
    by (simp add: validationResult_empty_iff)
  then have "post_appointment fails s req =
      (s, [], \<lparr>status = 400, json = Invalid ''Validation failed'' (validationResult req)\<rparr>)"
    by (simp add: post_appointment_def)
  then show ?thesis
    apply (intro exI [of _ "validationResult req"] conjI)
          apply assumption
         apply (simp_all add: validationResult_def check_def)
    done
qed

theorem validation_failure_lists_every_rule_witness:
  "\<exists>details.
     post_appointment healthy seeded_store malformed =
       (seeded_store, [], \<lparr>status = 400, json = Invalid ''Validation failed'' details\<rparr>) \<and>
     map path details = [''PatientId'', ''AppointmentDate'', ''AppointmentTime'', ''Reason'']"
proof -
  have broken: "\<not> isInt 1 (PatientId malformed)" "\<not> isDate (AppointmentDate malformed)"
    "\<not> matches time_re (AppointmentTime malformed)"
    "\<not> isLength 1 500 (Some (trim (Reason malformed)))"
    by (simp_all add: malformed_def isInt_def parse_int_def all_digits_def isdigit_def
        nat_of_digits_def digit_val_def toString_def isDate_def valid_date_def
        days_in_month_def leap_year_def matches_def test_def time_re_def isLength_def
        trim_def isspace_def)
  then have "\<not> isInt 1 (PatientId malformed) \<or> \<not> isDate (AppointmentDate malformed) \<or>
      \<not> matches time_re (AppointmentTime malformed) \<or>
      \<not> isLength 1 500 (Some (trim (Reason malformed)))"
    by simp
  from validation_failure_lists_every_rule [OF this, of healthy seeded_store]
  obtain details where
    "post_appointment healthy seeded_store malformed =
       (seeded_store, [], \<lparr>status = 400, json = Invalid ''Validation failed'' details\<rparr>)"
    by blast
  moreover from this have "details = validationResult malformed"
    using broken by (simp add: post_appointment_def validationResult_empty_iff)
  moreover have "map path (validationResult malformed) =
      [''PatientId'', ''AppointmentDate'', ''AppointmentTime'', ''Reason'']"
    using broken by (simp add: validationResult_def check_def)
  ultimately show ?thesis by auto
qed

section \<open>The create route: order of the checks\<close>

lemmas query_defs =
  patient_query_def conflict_query_def insert_statement_def patient_row_def conflict_row_def
  inserted_def

lemmas response_defs =
  created_response_def patient_not_found_def scheduling_conflict_def validation_failed_def
  server_error_def

lemma run_Inr_iff: "run fails q r = Inr x \<longleftrightarrow> \<not> fails q \<and> r = Inr x"
  by (simp add: run_def)

lemma sanitized_fields [simp]:
  "PatientId (sanitized req) = PatientId req"
  "AppointmentDate (sanitized req) = AppointmentDate req"
  "AppointmentTime (sanitized req) = AppointmentTime req"
  "Reason (sanitized req) = Some (trim (Reason req))"
  by (simp_all add: sanitized_def)

text \<open>The handler of the create route, one equation for each way it ends.\<close>

lemma post_invalid:
  "validationResult req \<noteq> [] \<Longrightarrow>
   post_appointment fails s req = (s, [], validation_failed req)"
  by (simp add: post_appointment_def response_defs)

lemma post_patient_query_fails:
  "validationResult req = [] \<Longrightarrow> patient_row fails s req = Inl e \<Longrightarrow>
   post_appointment fails s req =
     (s, [patient_query req], server_error ''Failed to create appointment'')"
  by (simp add: post_appointment_def query_defs)

lemma post_no_patient:
  "validationResult req = [] \<Longrightarrow> patient_row fails s req = Inr None \<Longrightarrow>
   post_appointment fails s req = (s, [patient_query req], patient_not_found req)"
  by (simp add: post_appointment_def query_defs response_defs)

lemma post_conflict_query_fails:
  "validationResult req = [] \<Longrightarrow> patient_row fails s req = Inr (Some p) \<Longrightarrow>
   conflict_row fails s req = Inl e \<Longrightarrow>
   post_appointment fails s req =
     (s, [patient_query req, conflict_query req],
      server_error ''Failed to create appointment'')"
  by (simp add: post_appointment_def query_defs)

lemma post_conflict:
  "validationResult req = [] \<Longrightarrow> patient_row fails s req = Inr (Some p) \<Longrightarrow>
   conflict_row fails s req = Inr (Some a) \<Longrightarrow>
   post_appointment fails s req =
     (s, [patient_query req, conflict_query req], scheduling_conflict)"
  by (simp add: post_appointment_def query_defs response_defs)

lemma post_insert_fails:
  "validationResult req = [] \<Longrightarrow> patient_row fails s req = Inr (Some p) \<Longrightarrow>
   conflict_row fails s req = Inr None \<Longrightarrow> inserted fails s req = Inl e \<Longrightarrow>
   post_appointment fails s req =
     (s, [patient_query req, conflict_query req, insert_statement req],
      server_error ''Failed to create appointment'')"
  by (simp add: post_appointment_def query_defs)

lemma post_created:
  "validationResult req = [] \<Longrightarrow> patient_row fails s req = Inr (Some p) \<Longrightarrow>
   conflict_row fails s req = Inr None \<Longrightarrow> inserted fails s req = Inr (s', i) \<Longrightarrow>
   post_appointment fails s req =
     (s', [patient_query req, conflict_query req, insert_statement req],
      created_response i req)"
  by (simp add: post_appointment_def query_defs response_defs)

lemma post_cases [case_names invalid patient_query_fails no_patient conflict_query_fails
    conflict insert_fails created]:
  assumes "validationResult req \<noteq> [] \<Longrightarrow> P"
    and "\<And>e. validationResult req = [] \<Longrightarrow> patient_row fails s req = Inl e \<Longrightarrow> P"
    and "validationResult req = [] \<Longrightarrow> patient_row fails s req = Inr None \<Longrightarrow> P"
    and "\<And>p e. validationResult req = [] \<Longrightarrow> patient_row fails s req = Inr (Some p) \<Longrightarrow>
           conflict_row fails s req = Inl e \<Longrightarrow> P"
    and "\<And>p a. validationResult req = [] \<Longrightarrow> patient_row fails s req = Inr (Some p) \<Longrightarrow>
           conflict_row fails s req = Inr (Some a) \<Longrightarrow> P"
    and "\<And>p e. validationResult req = [] \<Longrightarrow> patient_row fails s req = Inr (Some p) \<Longrightarrow>
           conflict_row fails s req = Inr None \<Longrightarrow> inserted fails s req = Inl e \<Longrightarrow> P"
    and "\<And>p s' i. validationResult req = [] \<Longrightarrow> patient_row fails s req = Inr (Some p) \<Longrightarrow>
           conflict_row fails s req = Inr None \<Longrightarrow> inserted fails s req = Inr (s', i) \<Longrightarrow> P"
  shows P
proof (cases "validationResult req = []")
  case False
  then show ?thesis by (rule assms(1))
next
  case valid: True
  show ?thesis
  proof (cases "patient_row fails s req")
    case (Inl e)
    with valid show ?thesis by (rule assms(2))
  next
    case found: (Inr row)
    show ?thesis
    proof (cases row)
      case None
      with valid found show ?thesis by (auto intro: assms(3))
    next
      case (Some p)
      with found have p: "patient_row fails s req = Inr (Some p)" by simp
      show ?thesis
      proof (cases "conflict_row fails s req")
        case (Inl e)
        with valid p show ?thesis by (rule assms(4))
      next
        case (Inr existing)
        show ?thesis
        proof (cases existing)
          case (Some a)
          with Inr valid p show ?thesis by (auto intro: assms(5))
        next
          case None
          with Inr have free: "conflict_row fails s req = Inr None" by simp
          show ?thesis
          proof (cases "inserted fails s req")
            case (Inl e)
            with valid p free show ?thesis by (rule assms(6))
          next
            case (Inr x)
            with valid p free show ?thesis by (cases x) (auto intro: assms(7))
          qed
        qed
      qed
    qed
  qed
qed

lemma absent_field_invalid:
  "\<not> isInt lo None" "\<not> isDate None" "\<not> matches time_re None"
  by (simp_all add: isInt_def parse_int_def toString_def isDate_def matches_def test_def
      time_re_def)

lemma valid_fields_present:
  assumes "validationResult req = []"
  shows "\<exists>pid d t. PatientId req = Some pid \<and> AppointmentDate req = Some d \<and>
           AppointmentTime req = Some t"
proof -
  from assms have "isInt 1 (PatientId req)" "isDate (AppointmentDate req)"
    "matches time_re (AppointmentTime req)"
    by (simp_all add: validationResult_empty_iff)
  then have "PatientId req \<noteq> None" "AppointmentDate req \<noteq> None" "AppointmentTime req \<noteq> None"
    using absent_field_invalid by metis+
  then show ?thesis by auto
qed

lemma insert_appointment_Inr:
  assumes "insert_appointment s pid d t r = Inr (s', i)"
  shows "\<exists>pid' d' t' r' n. pid = Some pid' \<and> d = Some d' \<and> t = Some t' \<and> r = Some r' \<and>
           parse_int pid' = Some n \<and> appointments_created s \<and>
           i = next_rowid (appointments_seq s) (map a_id (appointments s)) \<and>
           s' = s\<lparr>appointments := appointments s @
                   [\<lparr>a_id = i, a_patient_id = n, a_appointment_date = d',
                     a_appointment_time = t', a_reason = r', a_status = ''scheduled''\<rparr>],
                 appointments_seq := i\<rparr>"
  using assms
  by (auto simp: insert_appointment_def Let_def split: if_splits option.splits)

lemma inserted_Inr:
  assumes "inserted fails s req = Inr (s', i)"
  shows "\<exists>pid d t n. PatientId req = Some pid \<and> AppointmentDate req = Some d \<and>
           AppointmentTime req = Some t \<and> parse_int pid = Some n \<and>
           appointments_created s \<and>
           i = next_rowid (appointments_seq s) (map a_id (appointments s)) \<and>
           s' = s\<lparr>appointments := appointments s @
                   [\<lparr>a_id = i, a_patient_id = n, a_appointment_date = d,
                     a_appointment_time = t, a_reason = trim (Reason req),
                     a_status = ''scheduled''\<rparr>],
                 appointments_seq := i\<rparr>"
proof -
  from assms have "insert_appointment s (PatientId req) (AppointmentDate req)
      (AppointmentTime req) (Some (trim (Reason req))) = Inr (s', i)"
    by (simp add: inserted_def run_Inr_iff)
  from insert_appointment_Inr [OF this] show ?thesis by auto
qed


lemma seeded_store_eq:
  "seeded_store =
     \<lparr>patients_created = True,
      patients =
        [\<lparr>p_id = 1, p_name = ''John Doe'', p_email = Some ''john@example.com'',
          p_phone = Some ''555-0101''\<rparr>,
         \<lparr>p_id = 2, p_name = ''Jane Smith'', p_email = Some ''jane@example.com'',
          p_phone = Some ''555-0102''\<rparr>,
         \<lparr>p_id = 3, p_name = ''Bob Johnson'', p_email = Some ''bob@example.com'',
          p_phone = Some ''555-0103''\<rparr>],
      patients_seq = 3, appointments_created = True, appointments = [],
      appointments_seq = 0\<rparr>"
  by (simp add: seeded_store_def initializeDatabase_def healthy_def empty_store_def run_def
      attempt_def create_patients_def create_appointments_def count_patients_def
      samplePatients_def seed_def insert_patient_def next_rowid_def Let_def)

lemma checkup_valid: "validationResult checkup = []"
  by (simp add: validationResult_empty_iff checkup_def isInt_def parse_int_def all_digits_def
      isdigit_def nat_of_digits_def digit_val_def toString_def isDate_def valid_date_def
      days_in_month_def leap_year_def matches_def test_def time_re_def isLength_def
      trim_def isspace_def)





section \<open>The create route: failed checks write nothing\<close>

lemma select_patient_None_iff:
  "select_patient s pid = Inr None \<longleftrightarrow>
     patients_created s \<and> list_all (\<lambda>p. \<not> int_eq (p_id p) pid) (patients s)"
  by (auto simp: select_patient_def find_None_iff list_all_iff)

lemma post_unchanged_unless_created:
  assumes "post_appointment fails s req = (s', trace, res)" "status res \<noteq> 201"
  shows "s' = s"
proof (cases rule: post_cases [where req = req and fails = fails and s = s])
  case (created p s'' i)
  with assms show ?thesis by (auto simp: post_created response_defs)
qed (use assms in \<open>simp_all add: post_invalid post_patient_query_fails post_no_patient
      post_conflict_query_fails post_conflict post_insert_fails\<close>)

text \<open>
  C3: a create request that ends at the patient check (404) or at the conflict check (409)
  leaves the store as it was; so does every request not answered 201. A valid request for
  a patient reference that matches no patient is answered \<open>patient_not_found\<close> and leaves
  the number of appointments unchanged, when the storage engine answers the patient query.
\<close>

theorem failed_checks_create_nothing:
  assumes "post_appointment fails s req = (s', trace, res)"
  shows "(status res = 404 \<or> status res = 409 \<longrightarrow>
            s' = s \<and> appointments s' = appointments s) \<and>
         (status res \<noteq> 201 \<longrightarrow> s' = s) \<and>
         (validationResult req = [] \<and> patients_created s \<and> \<not> fails (patient_query req) \<and>
          list_all (\<lambda>p. \<not> int_eq (p_id p) (PatientId req)) (patients s) \<longrightarrow>
            res = patient_not_found req \<and> s' = s \<and>
            length (appointments s') = length (appointments s))"
proof -
  have unchanged: "status res \<noteq> 201 \<Longrightarrow> s' = s"
    using assms by (rule post_unchanged_unless_created)
  have "res = patient_not_found req \<and> s' = s"
    if "validationResult req = []" "patients_created s" "\<not> fails (patient_query req)"
      "list_all (\<lambda>p. \<not> int_eq (p_id p) (PatientId req)) (patients s)"
  proof -
    from that have "patient_row fails s req = Inr None"
      by (simp add: patient_row_def run_def select_patient_None_iff)
    with that(1) assms show ?thesis by (simp add: post_no_patient)
  qed
  with unchanged show ?thesis by auto
qed

theorem failed_checks_create_nothing_witness:
  "\<exists>trace. post_appointment healthy seeded_store (checkup\<lparr>PatientId := Some ''7''\<rparr>) =
     (seeded_store, trace,
      \<lparr>status = 404,
       json = Failure ''Patient not found'' ''Patient with ID 7 does not exist''\<rparr>)"
proof -
  let ?req = "checkup\<lparr>PatientId := Some ''7''\<rparr>"
  obtain s' trace res where
    run: "post_appointment healthy seeded_store ?req = (s', trace, res)"
    by (cases "post_appointment healthy seeded_store ?req") auto
  have 7: "parse_int ''7'' = Some 7"
    by (simp add: parse_int_def all_digits_def isdigit_def nat_of_digits_def digit_val_def)
  have "validationResult ?req = []"
    using checkup_valid
    by (simp add: validationResult_empty_iff checkup_def isInt_def 7 toString_def)
  moreover have "patients_created seeded_store" "\<not> healthy (patient_query ?req)"
    "list_all (\<lambda>p. \<not> int_eq (p_id p) (PatientId ?req)) (patients seeded_store)"
    by (simp_all add: seeded_store_eq healthy_def int_eq_def 7)
  ultimately have "res = patient_not_found ?req" "s' = seeded_store"
    using failed_checks_create_nothing [OF run] by blast+
  with run show ?thesis
    by (simp add: patient_not_found_def template_def)
qed

section \<open>The conflict invariant\<close>



lemma initializeDatabase_store:
  "fst (initializeDatabase fails s) =
     (let s1 = attempt fails CreatePatients (create_patients s) s;
          s2 = attempt fails CreateAppointments (create_appointments s1) s1
      in if \<not> fails CountPatients \<and> patients_created s2 \<and> patients s2 = []
         then fst (foldl (seed fails) (s2, [CreatePatients, CreateAppointments, CountPatients])
                samplePatients)
         else s2)"
  unfolding initializeDatabase_def Let_def
  by (simp add: run_def count_patients_def split: prod.splits)










section \<open>Schema initialization is idempotent\<close>

lemma healthy_never_fails: "healthy q = False"
  by (simp add: healthy_def)

lemma seeded_empty_table:
  assumes "patients_created s" "patients s = []"
  shows "fst (foldl (seed healthy) (s, trace) samplePatients) =
    s\<lparr>patients :=
        [\<lparr>p_id = patients_seq s + 1, p_name = ''John Doe'', p_email = Some ''john@example.com'',
          p_phone = Some ''555-0101''\<rparr>,
         \<lparr>p_id = patients_seq s + 2, p_name = ''Jane Smith'',
          p_email = Some ''jane@example.com'', p_phone = Some ''555-0102''\<rparr>,
         \<lparr>p_id = patients_seq s + 3, p_name = ''Bob Johnson'',
          p_email = Some ''bob@example.com'', p_phone = Some ''555-0103''\<rparr>],
      patients_seq := patients_seq s + 3\<rparr>"
  using assms
  by (simp add: samplePatients_def seed_def attempt_def run_def healthy_never_fails
      insert_patient_def next_rowid_def Let_def)

lemma tables_after_create:
  "patients_created (attempt healthy CreateAppointments
      (create_appointments (attempt healthy CreatePatients (create_patients s) s))
      (attempt healthy CreatePatients (create_patients s) s))"
  "appointments_created (attempt healthy CreateAppointments
      (create_appointments (attempt healthy CreatePatients (create_patients s) s))
      (attempt healthy CreatePatients (create_patients s) s))"
  "patients (attempt healthy CreateAppointments
      (create_appointments (attempt healthy CreatePatients (create_patients s) s))
      (attempt healthy CreatePatients (create_patients s) s)) =
     (if patients_created s then patients s else [])"
  by (simp_all add: attempt_def run_def healthy_never_fails create_patients_def
      create_appointments_def)

lemma initialized_tables:
  "patients_created (fst (initializeDatabase healthy s))"
  "appointments_created (fst (initializeDatabase healthy s))"
  "patients (fst (initializeDatabase healthy s)) \<noteq> []"
  unfolding initializeDatabase_store Let_def
  by (simp_all add: tables_after_create seeded_empty_table healthy_never_fails)

lemma initializeDatabase_fixpoint:
  assumes "patients_created s" "appointments_created s" "patients s \<noteq> []"
  shows "initializeDatabase fails s =
     (s, [CreatePatients, CreateAppointments, CountPatients],
      if fails CreatePatients \<or> fails CreateAppointments then Rejected else Resolved)"
  using assms
  by (simp add: initializeDatabase_def Let_def attempt_def run_def create_patients_def
      create_appointments_def count_patients_def)

lemma initializeDatabase_resolved:
  "snd (snd (initializeDatabase healthy s)) = Resolved"
  by (simp add: initializeDatabase_def Let_def run_def healthy_never_fails create_patients_def
      create_appointments_def split: sum.splits prod.splits)

text \<open>
  C9: with a storage engine that does not fail, \<^verbatim>\<open>initializeDatabase\<close> resolves on every store,
  and a second run on the store the first run leaves resolves too, sends only the two
  \<^verbatim>\<open>CREATE TABLE IF NOT EXISTS\<close> statements and the count query, and leaves that store as it
  is: no sample patient is inserted again. With any storage engine, the patients of a table
  that has rows are left as they are; the three sample patients are inserted when the table
  is new or empty.
\<close>

theorem initialization_idempotent:
  "snd (snd (initializeDatabase healthy s)) = Resolved \<and>
   initializeDatabase healthy (fst (initializeDatabase healthy s)) =
     (fst (initializeDatabase healthy s), [CreatePatients, CreateAppointments, CountPatients],
      Resolved) \<and>
   (patients_created s \<and> patients s \<noteq> [] \<longrightarrow>
      patients (fst (initializeDatabase fails s)) = patients s) \<and>
   (\<not> (patients_created s \<and> patients s \<noteq> []) \<longrightarrow>
      map (\<lambda>p. (p_name p, p_email p, p_phone p)) (patients (fst (initializeDatabase healthy s))) =
      map (\<lambda>x. case x of (n, e, ph) \<Rightarrow> (n, Some e, Some ph)) samplePatients)"
proof (intro conjI impI)
  show "snd (snd (initializeDatabase healthy s)) = Resolved"
    by (rule initializeDatabase_resolved)
  show "initializeDatabase healthy (fst (initializeDatabase healthy s)) =
     (fst (initializeDatabase healthy s), [CreatePatients, CreateAppointments, CountPatients],
      Resolved)"
    using initializeDatabase_fixpoint [OF initialized_tables, of healthy s]
    by (simp add: healthy_never_fails)
  show "patients (fst (initializeDatabase fails s)) = patients s"
    if "patients_created s \<and> patients s \<noteq> []"
    using that unfolding initializeDatabase_store Let_def
    by (simp add: attempt_def run_def create_patients_def create_appointments_def)
  show "map (\<lambda>p. (p_name p, p_email p, p_phone p)) (patients (fst (initializeDatabase healthy s))) =
      map (\<lambda>x. case x of (n, e, ph) \<Rightarrow> (n, Some e, Some ph)) samplePatients"
    if empty: "\<not> (patients_created s \<and> patients s \<noteq> [])"
  proof -
    define s2 where "s2 = attempt healthy CreateAppointments
      (create_appointments (attempt healthy CreatePatients (create_patients s) s))
      (attempt healthy CreatePatients (create_patients s) s)"
    have s2: "patients_created s2" "patients s2 = []"
      using empty by (auto simp: s2_def tables_after_create)
    then have "fst (initializeDatabase healthy s) =
        fst (foldl (seed healthy) (s2, [CreatePatients, CreateAppointments, CountPatients])
          samplePatients)"
      unfolding initializeDatabase_store Let_def s2_def [symmetric]
      by (simp add: healthy_never_fails)
    then show ?thesis
      by (simp add: seeded_empty_table [OF s2]) (simp add: samplePatients_def)
  qed
qed

theorem initialization_idempotent_witness:
  "initializeDatabase healthy seeded_store =
     (seeded_store, [CreatePatients, CreateAppointments, CountPatients], Resolved) \<and>
   length (patients seeded_store) = 3"
  using initialization_idempotent [of empty_store healthy]
  by (simp add: seeded_store_def [symmetric]) (simp add: seeded_store_eq)

section \<open>Empty query parameters\<close>

text \<open>
  C10: in the listing, a query parameter bound to the empty string is treated as an omitted
  one: the handler sends the same statement and gives the same answer, on every store.
\<close>

theorem empty_query_parameter_ignored:
  "get_appointments fails s (Some []) date = get_appointments fails s None date \<and>
   get_appointments fails s patientId (Some []) = get_appointments fails s patientId None"
  by (simp add: get_appointments_def build_query_def truthy_def)

section \<open>The join of appointments and patients\<close>







section \<open>The order of the listing\<close>













lemma fold_max_upper:
  "seq \<le> fold max ids seq \<and> (\<forall>x \<in> set ids. x \<le> fold max ids (seq :: int))"
proof (induction ids arbitrary: seq)
  case Nil
  then show ?case by simp
next
  case (Cons y ys)
  from Cons.IH [of "max y seq"] show ?case by auto
qed

lemma next_rowid_fresh: "next_rowid seq ids \<notin> set ids"
proof
  assume "next_rowid seq ids \<in> set ids"
  with fold_max_upper [of seq ids] have "next_rowid seq ids \<le> fold max ids seq" by blast
  then show False by (simp add: next_rowid_def)
qed

lemma select_patient_Some:
  assumes "select_patient s (Some pid) = Inr (Some k)"
  shows "parse_int pid = Some k \<and> k \<in> set (map p_id (patients s))"
proof -
  from assms obtain p where "find (\<lambda>p. int_eq (p_id p) (Some pid)) (patients s) = Some p"
    "p_id p = k"
    by (auto simp: select_patient_def split: if_splits)
  then have "p \<in> set (patients s)" "int_eq (p_id p) (Some pid)"
    by (auto simp: find_Some_iff)
  with \<open>p_id p = k\<close> show ?thesis by (auto simp: int_eq_def)
qed

lemma integrity_seeded_store: "integrity seeded_store"
  by (simp add: integrity_def seeded_store_eq)

lemma post_keeps_integrity:
  assumes "integrity s"
  shows "integrity (fst (post_appointment fails s req))"
proof (cases rule: post_cases [where req = req and fails = fails and s = s])
  case (created p s' i)
  from inserted_Inr [OF created(4)] obtain pid d t n where
    f: "PatientId req = Some pid" "parse_int pid = Some n"
      "i = next_rowid (appointments_seq s) (map a_id (appointments s))"
    and s': "s' = s\<lparr>appointments := appointments s @
       [\<lparr>a_id = i, a_patient_id = n, a_appointment_date = d, a_appointment_time = t,
         a_reason = trim (Reason req), a_status = ''scheduled''\<rparr>], appointments_seq := i\<rparr>"
    by auto
  from created(2) f(1) have "select_patient s (Some pid) = Inr (Some p)"
    by (simp add: patient_row_def run_Inr_iff)
  from select_patient_Some [OF this] f(2) have "n \<in> set (map p_id (patients s))" by simp
  moreover have "i \<notin> set (map a_id (appointments s))"
    unfolding f(3) by (rule next_rowid_fresh)
  ultimately have "integrity s'"
    using assms by (simp add: integrity_def s')
  with created show ?thesis by (simp add: post_created)
qed (use assms in \<open>simp_all add: post_invalid post_patient_query_fails post_no_patient
      post_conflict_query_fails post_conflict post_insert_fails\<close>)




theorem empty_query_parameter_ignored_witness:
  "get_appointments healthy booked_store (Some []) (Some []) =
   get_appointments healthy booked_store None None"
  using empty_query_parameter_ignored [of healthy booked_store "Some []" None]
    empty_query_parameter_ignored [of healthy booked_store None None]
  by simp

end
